theory Spec2Isabelle
  imports Complex_Main "HOL-Library.Log_Nat"
begin

section \<open>Scope and exceptions\<close>

text \<open>
  A shallow embedding of \<^verbatim>\<open>src/trader.py\<close> (class \<^verbatim>\<open>Trader\<close>) and of the loop of
  \<^verbatim>\<open>src/main.py\<close>.

  Numbers. Quantities and positions are Python's unbounded integers (\<^typ>\<open>int\<close>). Prices,
  the bankroll and \<^verbatim>\<open>MAX_POSITION_SIZE_PERCENTAGE\<close> are Python floats, that is IEEE 754
  binary64 values: the tests and the configuration feed the code values such as \<^verbatim>\<open>0.5\<close> and
  \<^verbatim>\<open>0.1\<close>. A float is its exact rational value, an infinity or NaN, and every arithmetic
  operation rounds its exact result to the nearest binary64 value, ties to even. The two
  zeros are one value: they compare equal, both are false, both raise as divisors, and
  nothing here tells them apart. An \<^verbatim>\<open>int\<close> bankroll or price (the tests use the bankroll
  \<^verbatim>\<open>1000\<close>) is taken as the float it is converted to by the arithmetic of lines 43 to 46.

  Collaborators. \<^verbatim>\<open>config\<close>, \<^verbatim>\<open>notifier\<close>, \<^verbatim>\<open>logger\<close> and \<^verbatim>\<open>kalshi_api\<close> are imported by the
  source and are not part of it. The configuration constant is a parameter, the logger is
  an append-only list of entries, the notifier is a list of the calls made to it together
  with a parameter that says which calls raise, and the market API is the sequence of the
  outcomes of its successive \<^verbatim>\<open>fetch_market_data\<close> calls.
\<close>

datatype exn =
    ZeroDivisionError
  | OverflowError
  | ValueError
  | NotifierError string
  | ApiError string

section \<open>Python floats\<close>

datatype pyfloat = Finite rat | PInf | NInf | NaN

text \<open>Rounding to the nearest integer, ties to the even one.\<close>

definition round_half_even :: "rat \<Rightarrow> int" where
  "round_half_even y =
     (let n = \<lfloor>y\<rfloor>; d = y - of_int n
      in if d < 1/2 then n else if 1/2 < d then n + 1 else if even n then n else n + 1)"

text \<open>
  The binary exponent of a positive rational \<open>a\<close>: the \<open>e\<close> with \<open>2^e \<le> a < 2^(e+1)\<close>, but at
  least \<open>-1022\<close>, the exponent of the subnormal numbers. Neighbouring binary64 values with
  that exponent are \<open>2^(e-52)\<close> apart.
\<close>

definition exponent :: "rat \<Rightarrow> int" where
  "exponent a = max (- 1022)
     (if 1 \<le> a then bitlen \<lfloor>a\<rfloor> - 1 else - bitlen (\<lceil>1 / a\<rceil> - 1))"

definition ulp :: "rat \<Rightarrow> rat" where
  "ulp a = 2 powi (exponent a - 52)"

definition mantissa :: "rat \<Rightarrow> int" where
  "mantissa a = round_half_even (a / ulp a)"

definition round_magnitude :: "rat \<Rightarrow> rat" where
  "round_magnitude a = of_int (mantissa a) * ulp a"

text \<open>
  The rounded magnitude \<open>mantissa a * 2^(exponent a - 52)\<close> overflows when it reaches
  \<open>2^1024\<close>: the mantissa is at most \<open>2^53\<close>, so that is when the exponent is 1024 or more, or
  is 1023 with the mantissa rounded up to \<open>2^53\<close>.
\<close>

definition overflows :: "rat \<Rightarrow> bool" where
  "overflows a = (1024 \<le> exponent a \<or> (exponent a = 1023 \<and> 9007199254740992 \<le> mantissa a))"

text \<open>Rounding an exact result to binary64; an overflow gives an infinity.\<close>

definition round_double :: "rat \<Rightarrow> pyfloat" where
  "round_double x =
     (if x = 0 then Finite 0
      else if 0 < x then
        (if overflows x then PInf else Finite (round_magnitude x))
      else
        (if overflows (- x) then NInf else Finite (- round_magnitude (- x))))"

text \<open>Float multiplication \<^verbatim>\<open>a * b\<close>: it never raises.\<close>

fun fmul :: "pyfloat \<Rightarrow> pyfloat \<Rightarrow> pyfloat" where
  "fmul NaN b = NaN"
| "fmul a NaN = NaN"
| "fmul (Finite x) (Finite y) = round_double (x * y)"
| "fmul (Finite x) PInf = (if x = 0 then NaN else if 0 < x then PInf else NInf)"
| "fmul (Finite x) NInf = (if x = 0 then NaN else if 0 < x then NInf else PInf)"
| "fmul PInf (Finite y) = (if y = 0 then NaN else if 0 < y then PInf else NInf)"
| "fmul NInf (Finite y) = (if y = 0 then NaN else if 0 < y then NInf else PInf)"
| "fmul PInf PInf = PInf"
| "fmul PInf NInf = NInf"
| "fmul NInf PInf = NInf"
| "fmul NInf NInf = PInf"

text \<open>
  Float division \<^verbatim>\<open>a / b\<close>: a zero divisor raises \<^verbatim>\<open>ZeroDivisionError\<close>, whatever the
  dividend; \<open>fquot\<close> is the quotient for a divisor that is not zero.
\<close>

fun fquot :: "pyfloat \<Rightarrow> pyfloat \<Rightarrow> pyfloat" where
  "fquot NaN b = NaN"
| "fquot a NaN = NaN"
| "fquot (Finite x) (Finite y) = round_double (x / y)"
| "fquot (Finite x) PInf = Finite 0"
| "fquot (Finite x) NInf = Finite 0"
| "fquot PInf (Finite y) = (if 0 < y then PInf else NInf)"
| "fquot NInf (Finite y) = (if 0 < y then NInf else PInf)"
| "fquot PInf PInf = NaN"
| "fquot PInf NInf = NaN"
| "fquot NInf PInf = NaN"
| "fquot NInf NInf = NaN"

definition fdiv :: "pyfloat \<Rightarrow> pyfloat \<Rightarrow> exn + pyfloat" where
  "fdiv a b = (if b = Finite 0 then Inl ZeroDivisionError else Inr (fquot a b))"

text \<open>The comparison \<^verbatim>\<open>a > b\<close>: false when either side is NaN.\<close>

fun fgt :: "pyfloat \<Rightarrow> pyfloat \<Rightarrow> bool" where
  "fgt NaN b = False"
| "fgt a NaN = False"
| "fgt (Finite x) (Finite y) = (y < x)"
| "fgt (Finite x) PInf = False"
| "fgt (Finite x) NInf = True"
| "fgt PInf PInf = False"
| "fgt PInf b = True"
| "fgt NInf b = False"

text \<open>
  \<^verbatim>\<open>float(k)\<close> of an \<^verbatim>\<open>int\<close>, as \<^verbatim>\<open>k * price\<close> applies it to \<open>k\<close>: correctly rounded, and
  \<^verbatim>\<open>OverflowError\<close> when the \<^verbatim>\<open>int\<close> is too large for a float.
\<close>

definition float_of_int :: "int \<Rightarrow> exn + pyfloat" where
  "float_of_int k =
     (case round_double (of_int k) of
        Finite r \<Rightarrow> Inr (Finite r)
      | PInf \<Rightarrow> Inl OverflowError
      | NInf \<Rightarrow> Inl OverflowError
      | NaN \<Rightarrow> Inl OverflowError)"

text \<open>
  \<^verbatim>\<open>int(x)\<close> of a float truncates towards zero; it raises \<^verbatim>\<open>OverflowError\<close> for an infinity
  and \<^verbatim>\<open>ValueError\<close> for NaN.
\<close>

definition py_int :: "pyfloat \<Rightarrow> exn + int" where
  "py_int a =
     (case a of
        Finite x \<Rightarrow> Inr (if 0 \<le> x then \<lfloor>x\<rfloor> else \<lceil>x\<rceil>)
      | PInf \<Rightarrow> Inl OverflowError
      | NInf \<Rightarrow> Inl OverflowError
      | NaN \<Rightarrow> Inl ValueError)"

section \<open>Records of the program\<close>

text \<open>
  The texts handed to the notifier and to the logger are f-strings over numbers; they are
  kept as structured values, one constructor per format string of the source.
\<close>

datatype message =
    Bought int string pyfloat
  | Sold int string pyfloat
  | Trade_execution_error string exn
  | Error_text exn

datatype notifier_call =
    Trade_notification message
  | Error_notification message

datatype log_entry =
    Info_starting
  | Info_running_strategy
  | Info_placeholder_decision
  | Info_no_decision
  | Info_no_market_data
  | Info_no_opportunity
  | Info_buy string pyfloat int
  | Info_sell string pyfloat int
  | Warning_exceeds pyfloat pyfloat
  | Warning_adjusted_zero
  | Error_executing string exn
  | Error_occurred exn

text \<open>The trade decision: the dict built at line 29 of \<^verbatim>\<open>trader.py\<close>.\<close>

record proposal =
  event_id :: string
  action :: string
  quantity :: int
  price :: pyfloat

text \<open>
  A market record is read with \<^verbatim>\<open>market.get('id')\<close> and \<^verbatim>\<open>market.get('current_price')\<close>:
  a missing key reads as \<^verbatim>\<open>None\<close>.
\<close>

record market =
  market_id :: "string option"
  current_price :: "pyfloat option"

text \<open>
  The snapshot dict: the value under \<^verbatim>\<open>'markets'\<close> (\<open>None\<close> when the key is absent) and
  whether the dict has any other key, which decides its truth value when \<^verbatim>\<open>'markets'\<close>
  is absent.
\<close>

record market_data =
  markets :: "market list option"
  other_keys :: bool

text \<open>
  The \<^verbatim>\<open>Trader\<close> object (\<open>bankroll\<close>, \<open>current_positions\<close>) with the traces of its two
  collaborators.
\<close>

record trader =
  bankroll :: pyfloat
  current_positions :: "string \<rightharpoonup> int"
  notifier_calls :: "notifier_call list"
  log :: "log_entry list"

text \<open>
  The environment: the constant imported from \<^verbatim>\<open>config\<close>, and the behaviour of the
  notifier. \<open>notifier_raises env calls c = Some txt\<close> says that the call \<open>c\<close>, made after the
  earlier calls \<open>calls\<close>, raises an exception with text \<open>txt\<close>.
\<close>

record env =
  MAX_POSITION_SIZE_PERCENTAGE :: pyfloat
  notifier_raises :: "notifier_call list \<Rightarrow> notifier_call \<Rightarrow> string option"

datatype fetch_result =
    Fetch_raises string
  | Fetch_returns "market_data option"

section \<open>Collaborators\<close>

definition logger :: "log_entry \<Rightarrow> trader \<Rightarrow> trader" where
  "logger e self = self\<lparr>log := log self @ [e]\<rparr>"

text \<open>A call of the notifier is recorded, then it returns or raises.\<close>

definition notify :: "env \<Rightarrow> notifier_call \<Rightarrow> trader \<Rightarrow> exn option \<times> trader" where
  "notify env c self =
     (case notifier_raises env (notifier_calls self) c of
        None \<Rightarrow> None
      | Some txt \<Rightarrow> Some (NotifierError txt),
      self\<lparr>notifier_calls := notifier_calls self @ [c]\<rparr>)"

definition send_trade_notification :: "env \<Rightarrow> message \<Rightarrow> trader \<Rightarrow> exn option \<times> trader" where
  "send_trade_notification env m self = notify env (Trade_notification m) self"

definition send_error_notification :: "env \<Rightarrow> message \<Rightarrow> trader \<Rightarrow> exn option \<times> trader" where
  "send_error_notification env m self = notify env (Error_notification m) self"

section \<open>The decision function\<close>

text \<open>
  Python's truth value of a string and of a float, after \<^verbatim>\<open>dict.get\<close>: only zero is a false
  float; the infinities and NaN are true.
\<close>

definition truthy_str :: "string option \<Rightarrow> bool" where
  "truthy_str v = (case v of None \<Rightarrow> False | Some s \<Rightarrow> s \<noteq> [])"

definition truthy_num :: "pyfloat option \<Rightarrow> bool" where
  "truthy_num v = (case v of None \<Rightarrow> False | Some x \<Rightarrow> x \<noteq> Finite 0)"

text \<open>The truth value of the snapshot: \<^verbatim>\<open>None\<close> and the empty dict are false.\<close>

definition truthy_data :: "market_data option \<Rightarrow> bool" where
  "truthy_data v = (case v of None \<Rightarrow> False | Some d \<Rightarrow> markets d \<noteq> None \<or> other_keys d)"

text \<open>
  \<^verbatim>\<open>Trader._make_trade_decision\<close>, lines 18 to 30: the value returned
  (\<open>decision\<close>) and the method with its log entry.
\<close>

definition decision :: "market_data option \<Rightarrow> proposal option" where
  "decision data =
     (case data of
        None \<Rightarrow> None
      | Some d \<Rightarrow>
          (case markets d of
             None \<Rightarrow> None
           | Some [] \<Rightarrow> None
           | Some (m # _) \<Rightarrow>
               if truthy_str (market_id m) \<and> truthy_num (current_price m)
               then Some \<lparr>event_id = the (market_id m), action = ''buy'',
                          quantity = 1, price = the (current_price m)\<rparr>
               else None))"

definition make_trade_decision :: "market_data option \<Rightarrow> trader \<Rightarrow> proposal option \<times> trader" where
  "make_trade_decision data self = (decision data, logger Info_placeholder_decision self)"

section \<open>Trade execution\<close>

text \<open>\<^verbatim>\<open>self.current_positions.get(event_id, 0)\<close>\<close>

definition position :: "trader \<Rightarrow> string \<Rightarrow> int" where
  "position self k = (case current_positions self k of None \<Rightarrow> 0 | Some v \<Rightarrow> v)"

definition set_position :: "string \<Rightarrow> int \<Rightarrow> trader \<Rightarrow> trader" where
  "set_position k v self = self\<lparr>current_positions := (current_positions self)(k \<mapsto> v)\<rparr>"

text \<open>
  The body of the \<^verbatim>\<open>try\<close> of \<^verbatim>\<open>execute_trade\<close>, lines 52 to 69. The book is written
  before the notifier is called, so a notifier that raises leaves the new entry in place.
  The stop-loss branch of lines 66 to 69 is \<^verbatim>\<open>pass\<close>.
\<close>

definition trade_body :: "env \<Rightarrow> string \<Rightarrow> string \<Rightarrow> int \<Rightarrow> pyfloat \<Rightarrow> trader \<Rightarrow> exn option \<times> trader" where
  "trade_body env eid act q p self =
     (if act = ''buy'' then
        send_trade_notification env (Bought q eid p)
          (set_position eid (position self eid + q) (logger (Info_buy eid p q) self))
      else if act = ''sell'' then
        send_trade_notification env (Sold q eid p)
          (set_position eid (position self eid - q) (logger (Info_sell eid p q) self))
      else (None, self))"

text \<open>
  The \<^verbatim>\<open>try\<close> with its handler, lines 51 to 73: an exception of the body is logged and
  sent to the notifier as an error; an exception of that last call leaves the method.
\<close>

definition trade_try :: "env \<Rightarrow> string \<Rightarrow> string \<Rightarrow> int \<Rightarrow> pyfloat \<Rightarrow> trader \<Rightarrow> exn option \<times> trader" where
  "trade_try env eid act q p self =
     (case trade_body env eid act q p self of
        (None, s) \<Rightarrow> (None, s)
      | (Some e, s) \<Rightarrow>
          send_error_notification env (Trade_execution_error eid e)
            (logger (Error_executing eid e) s))"

text \<open>
  The position sizing of lines 43 to 49, which comes before the \<^verbatim>\<open>try\<close>.
  \<open>max_trade_value\<close> is line 43 and \<open>trade_value\<close> is the product \<^verbatim>\<open>quantity * price\<close> of
  line 44, which converts the quantity to a float first. The result of \<open>position_sizing\<close> is
  \<open>Inl e\<close> when the sizing raises \<open>e\<close>, \<open>Inr None\<close> when the trade is skipped (line 49), and
  \<open>Inr (Some q)\<close> when the method goes on to the \<^verbatim>\<open>try\<close> with the quantity \<open>q\<close>.
\<close>

definition max_trade_value :: "env \<Rightarrow> trader \<Rightarrow> pyfloat" where
  "max_trade_value env self = fmul (bankroll self) (MAX_POSITION_SIZE_PERCENTAGE env)"

definition trade_value :: "proposal \<Rightarrow> exn + pyfloat" where
  "trade_value d =
     (case float_of_int (quantity d) of
        Inl e \<Rightarrow> Inl e
      | Inr k \<Rightarrow> Inr (fmul k (price d)))"

definition position_sizing :: "env \<Rightarrow> proposal \<Rightarrow> trader \<Rightarrow> (exn + int option) \<times> trader" where
  "position_sizing env d self =
     (case trade_value d of
        Inl e \<Rightarrow> (Inl e, self)
      | Inr v \<Rightarrow>
          if fgt v (max_trade_value env self) then
            (let s1 = logger (Warning_exceeds v (max_trade_value env self)) self in
             case fdiv (max_trade_value env self) (price d) of
               Inl e \<Rightarrow> (Inl e, s1)
             | Inr x \<Rightarrow>
                 (case py_int x of
                    Inl e \<Rightarrow> (Inl e, s1)
                  | Inr q \<Rightarrow>
                      if q = 0 then (Inr None, logger Warning_adjusted_zero s1)
                      else (Inr (Some q), s1)))
          else (Inr (Some (quantity d)), self))"

text \<open>
  \<^verbatim>\<open>Trader.execute_trade\<close>, lines 32 to 73. The first component of the result is the exception
  that leaves the method, if any; the second is the state the method leaves behind, also
  when it raises.
\<close>

definition execute_trade :: "env \<Rightarrow> proposal option \<Rightarrow> trader \<Rightarrow> exn option \<times> trader" where
  "execute_trade env trade_decision self =
     (case trade_decision of
        None \<Rightarrow> (None, logger Info_no_decision self)
      | Some d \<Rightarrow>
          (case position_sizing env d self of
             (Inl e, s1) \<Rightarrow> (Some e, s1)
           | (Inr None, s1) \<Rightarrow> (None, s1)
           | (Inr (Some q), s1) \<Rightarrow> trade_try env (event_id d) (action d) q (price d) s1))"

section \<open>The strategy cycle and the main loop\<close>

text \<open>
  \<^verbatim>\<open>Trader.run_trading_strategy\<close>, lines 94 to 130, given the outcome of its call of
  \<^verbatim>\<open>self.api.fetch_market_data()\<close>.
\<close>

definition run_trading_strategy :: "env \<Rightarrow> fetch_result \<Rightarrow> trader \<Rightarrow> exn option \<times> trader" where
  "run_trading_strategy env r self =
     (case r of
        Fetch_raises txt \<Rightarrow> (Some (ApiError txt), self)
      | Fetch_returns data \<Rightarrow>
          if \<not> truthy_data data then (None, logger Info_no_market_data self)
          else
            (case make_trade_decision data self of
               (None, s) \<Rightarrow> (None, logger Info_no_opportunity s)
             | (Some d, s) \<Rightarrow> execute_trade env (Some d) s))"

text \<open>
  The \<^verbatim>\<open>while True\<close> of \<^verbatim>\<open>main\<close>, lines 23 to 26, driven by the outcomes of the successive
  fetches. One cycle is run per outcome; the first exception ends the loop. When the
  outcomes are used up without an exception the result is \<open>None\<close>: the loop is still
  running.
\<close>

fun main_loop :: "env \<Rightarrow> fetch_result list \<Rightarrow> trader \<Rightarrow> exn option \<times> trader" where
  "main_loop env [] self = (None, self)"
| "main_loop env (r # rs) self =
     (case run_trading_strategy env r (logger Info_running_strategy self) of
        (Some e, s) \<Rightarrow> (Some e, s)
      | (None, s) \<Rightarrow> main_loop env rs s)"

datatype outcome =
    Still_running
  | Returned
  | Raised exn

text \<open>
  \<^verbatim>\<open>main\<close>, lines 14 to 30, for a trader created with bankroll \<open>b\<close>. The constructors of
  the collaborators are taken not to raise.
\<close>

definition Trader :: "pyfloat \<Rightarrow> trader" where
  "Trader b = \<lparr>bankroll = b, current_positions = Map.empty, notifier_calls = [], log = []\<rparr>"

definition main :: "env \<Rightarrow> pyfloat \<Rightarrow> fetch_result list \<Rightarrow> outcome \<times> trader" where
  "main env b rs =
     (case main_loop env rs (logger Info_starting (Trader b)) of
        (None, s) \<Rightarrow> (Still_running, s)
      | (Some e, s) \<Rightarrow>
          (case send_error_notification env (Error_text e) (logger (Error_occurred e) s) of
             (None, s') \<Rightarrow> (Returned, s')
           | (Some e', s') \<Rightarrow> (Raised e', s')))"

text \<open>
  The log entries that \<^verbatim>\<open>main\<close> writes itself: the start, one entry at the head of each
  cycle, and the entry of its exception handler. Every other entry comes from the trader.
\<close>

fun main_entry :: "log_entry \<Rightarrow> bool" where
  "main_entry Info_starting = True"
| "main_entry Info_running_strategy = True"
| "main_entry (Error_occurred e) = True"
| "main_entry e = False"

section \<open>Basic facts\<close>

subsection \<open>The collaborators and the \<^verbatim>\<open>try\<close> block\<close>

lemma snd_notify: "snd (notify env c s) = s\<lparr>notifier_calls := notifier_calls s @ [c]\<rparr>"
  by (simp add: notify_def)

lemma positions_trade_try:
  "current_positions (snd (trade_try env eid act q p s)) =
     (if act = ''buy'' then (current_positions s)(eid \<mapsto> position s eid + q)
      else if act = ''sell'' then (current_positions s)(eid \<mapsto> position s eid - q)
      else current_positions s)"
  by (simp add: trade_try_def trade_body_def send_trade_notification_def
      send_error_notification_def notify_def set_position_def logger_def position_def
      split: option.splits)

lemma bankroll_trade_try: "bankroll (snd (trade_try env eid act q p s)) = bankroll s"
  by (simp add: trade_try_def trade_body_def send_trade_notification_def
      send_error_notification_def notify_def set_position_def logger_def
      split: option.splits)

lemma fst_trade_try:
  "fst (trade_try env eid act q p s) = None \<or> (\<exists>t. fst (trade_try env eid act q p s) = Some (NotifierError t))"
  by (simp add: trade_try_def trade_body_def send_trade_notification_def
      send_error_notification_def notify_def set_position_def logger_def
      split: option.splits)


lemma trade_try_other_side:
  "act \<noteq> ''buy'' \<Longrightarrow> act \<noteq> ''sell'' \<Longrightarrow> trade_try env eid act q p s = (None, s)"
  by (simp add: trade_try_def trade_body_def)

subsection \<open>The position sizing\<close>

text \<open>
  The sizing writes to the log only, and none of the entries of \<^verbatim>\<open>main\<close>.
\<close>

lemma sizing_log_only:
  "\<exists>es. snd (position_sizing env d s) = s\<lparr>log := log s @ es\<rparr> \<and> (\<forall>e \<in> set es. \<not> main_entry e)"
proof -
  have a: "s = s\<lparr>log := log s @ []\<rparr>" by simp
  have "snd (position_sizing env d s) = s \<or>
      snd (position_sizing env d s) =
        s\<lparr>log := log s @ [Warning_exceeds (projr (trade_value d)) (max_trade_value env s)]\<rparr> \<or>
      snd (position_sizing env d s) =
        s\<lparr>log := log s @ [Warning_exceeds (projr (trade_value d)) (max_trade_value env s),
                            Warning_adjusted_zero]\<rparr>"
    by (simp add: position_sizing_def Let_def logger_def split: sum.splits)
  then show ?thesis
  proof (elim disjE)
    assume "snd (position_sizing env d s) = s"
    with a have "snd (position_sizing env d s) = s\<lparr>log := log s @ []\<rparr> \<and> (\<forall>e \<in> set []. \<not> main_entry e)"
      by simp
    then show ?thesis by blast
  next
    assume "snd (position_sizing env d s) =
        s\<lparr>log := log s @ [Warning_exceeds (projr (trade_value d)) (max_trade_value env s)]\<rparr>"
    then have "snd (position_sizing env d s) =
        s\<lparr>log := log s @ [Warning_exceeds (projr (trade_value d)) (max_trade_value env s)]\<rparr> \<and>
        (\<forall>e \<in> set [Warning_exceeds (projr (trade_value d)) (max_trade_value env s)]. \<not> main_entry e)"
      by simp
    then show ?thesis by blast
  next
    assume "snd (position_sizing env d s) =
        s\<lparr>log := log s @ [Warning_exceeds (projr (trade_value d)) (max_trade_value env s),
                            Warning_adjusted_zero]\<rparr>"
    then have "snd (position_sizing env d s) =
        s\<lparr>log := log s @ [Warning_exceeds (projr (trade_value d)) (max_trade_value env s),
                            Warning_adjusted_zero]\<rparr> \<and>
        (\<forall>e \<in> set [Warning_exceeds (projr (trade_value d)) (max_trade_value env s),
                            Warning_adjusted_zero]. \<not> main_entry e)"
      by simp
    then show ?thesis by blast
  qed
qed

lemma sizing_frame:
  "current_positions (snd (position_sizing env d s)) = current_positions s"
  "bankroll (snd (position_sizing env d s)) = bankroll s"
  "notifier_calls (snd (position_sizing env d s)) = notifier_calls s"
  "position (snd (position_sizing env d s)) k = position s k"
  "filter main_entry (log (snd (position_sizing env d s))) = filter main_entry (log s)"
  using sizing_log_only [of env d s] by (auto simp add: position_def)

text \<open>
  The three outcomes of the sizing, as \<open>execute_trade\<close> goes on from them.
\<close>

lemma execute_trade_raises:
  "fst (position_sizing env d s) = Inl e \<Longrightarrow>
   execute_trade env (Some d) s = (Some e, snd (position_sizing env d s))"
  by (cases "position_sizing env d s") (simp add: execute_trade_def)

lemma execute_trade_skips:
  "fst (position_sizing env d s) = Inr None \<Longrightarrow>
   execute_trade env (Some d) s = (None, snd (position_sizing env d s))"
  by (cases "position_sizing env d s") (simp add: execute_trade_def)

lemma execute_trade_trades:
  "fst (position_sizing env d s) = Inr (Some q) \<Longrightarrow>
   execute_trade env (Some d) s =
     trade_try env (event_id d) (action d) q (price d) (snd (position_sizing env d s))"
  by (cases "position_sizing env d s") (simp add: execute_trade_def)

lemma sizing_cases:
  obtains e where "fst (position_sizing env d s) = Inl e"
  | "fst (position_sizing env d s) = Inr None"
  | q where "fst (position_sizing env d s) = Inr (Some q)"
proof (cases "fst (position_sizing env d s)")
  case (Inl e)
  then show ?thesis by (rule that(1))
next
  case (Inr r)
  show ?thesis
  proof (cases r)
    case None
    with Inr show ?thesis by (simp add: that(2))
  next
    case (Some q)
    with Inr show ?thesis by (simp add: that(3))
  qed
qed

lemma sizing_within:
  "trade_value d = Inr v \<Longrightarrow> \<not> fgt v (max_trade_value env s) \<Longrightarrow>
   position_sizing env d s = (Inr (Some (quantity d)), s)"
  by (simp add: position_sizing_def)

lemma sizing_exception:
  "fst (position_sizing env d s) = Inl e \<Longrightarrow>
   e = ZeroDivisionError \<and> price d = Finite 0 \<or> e = OverflowError \<or> e = ValueError"
  by (auto simp add: position_sizing_def trade_value_def float_of_int_def fdiv_def py_int_def
      Let_def split: sum.splits pyfloat.splits if_splits)


lemma positions_execute_trade:
  "current_positions (snd (execute_trade env (Some d) s)) = current_positions s \<or>
   (\<exists>v. current_positions (snd (execute_trade env (Some d) s)) = (current_positions s)(event_id d \<mapsto> v))"
proof (cases rule: sizing_cases [of env d s])
  case (1 e)
  then show ?thesis by (simp add: execute_trade_raises sizing_frame)
next
  case 2
  then show ?thesis by (simp add: execute_trade_skips sizing_frame)
next
  case (3 q)
  then show ?thesis by (auto simp add: execute_trade_trades positions_trade_try sizing_frame)
qed

lemma bankroll_execute_trade: "bankroll (snd (execute_trade env td s)) = bankroll s"
proof (cases td)
  case None
  then show ?thesis by (simp add: execute_trade_def logger_def)
next
  case (Some d)
  show ?thesis
  proof (cases rule: sizing_cases [of env d s])
    case (1 e)
    with Some show ?thesis by (simp add: execute_trade_raises sizing_frame)
  next
    case 2
    with Some show ?thesis by (simp add: execute_trade_skips sizing_frame)
  next
    case (3 q)
    with Some show ?thesis by (simp add: execute_trade_trades bankroll_trade_try sizing_frame)
  qed
qed

subsection \<open>Rounding keeps the sign\<close>






section \<open>The decision function\<close>

subsection \<open>First market only\<close>

text \<open>
  Claim C3 as written: the decision function returns \<open>None\<close> for a snapshot with a first
  market record only if that record lacks both an id and a price. It fails for a record
  that has an id and no price: the test of line 28 needs both values, so the result is
  \<open>None\<close> although the record does not lack both.
\<close>

theorem decision_price_missing_counterexample:
  "\<not> (market_id \<lparr>market_id = Some ''M'', current_price = None\<rparr> = None \<and>
      current_price \<lparr>market_id = Some ''M'', current_price = None\<rparr> = None) \<and>
   decision (Some \<lparr>markets = Some [\<lparr>market_id = Some ''M'', current_price = None\<rparr>],
                    other_keys = False\<rparr>) = None"
  by (simp add: decision_def truthy_str_def truthy_num_def)

text \<open>
  Claim C3, amended: the decision function returns \<open>None\<close> when the snapshot is absent, has no
  \<^verbatim>\<open>'markets'\<close> key or has an empty market list. Otherwise only the first market record
  counts (the result is the same as for the snapshot cut down to that record); the result
  is \<open>None\<close> exactly when the record's id is missing or empty or its current price is
  missing or zero, and in every other case it is a buy of quantity 1 of that id at that
  price.
\<close>

theorem decision_first_market:
  "decision None = None \<and>
   (markets d = None \<or> markets d = Some [] \<longrightarrow> decision (Some d) = None) \<and>
   (markets d = Some (m # ms) \<longrightarrow>
      decision (Some d) = decision (Some \<lparr>markets = Some [m], other_keys = False\<rparr>) \<and>
      (decision (Some d) = None \<longleftrightarrow>
         market_id m = None \<or> market_id m = Some [] \<or>
         current_price m = None \<or> current_price m = Some (Finite 0)) \<and>
      (decision (Some d) \<noteq> None \<longrightarrow>
         decision (Some d) = Some \<lparr>event_id = the (market_id m), action = ''buy'',
                                   quantity = 1, price = the (current_price m)\<rparr>))"
  by (auto simp add: decision_def truthy_str_def truthy_num_def split: option.splits)

text \<open>
  The amended claim at a snapshot of two markets, and at a snapshot with an empty list.
\<close>

theorem decision_first_market_witness:
  "decision (Some \<lparr>markets = Some [\<lparr>market_id = Some ''M'', current_price = Some (Finite (1/2))\<rparr>,
                                   \<lparr>market_id = Some ''N'', current_price = Some (Finite (1/4))\<rparr>],
                    other_keys = False\<rparr>)
     = Some \<lparr>event_id = ''M'', action = ''buy'', quantity = 1, price = Finite (1/2)\<rparr> \<and>
   decision (Some \<lparr>markets = Some [], other_keys = True\<rparr>) = None"
  using decision_first_market
    [of "\<lparr>markets = Some [\<lparr>market_id = Some ''M'', current_price = Some (Finite (1/2))\<rparr>,
                           \<lparr>market_id = Some ''N'', current_price = Some (Finite (1/4))\<rparr>],
           other_keys = False\<rparr>"
        "\<lparr>market_id = Some ''M'', current_price = Some (Finite (1/2))\<rparr>"
        "[\<lparr>market_id = Some ''N'', current_price = Some (Finite (1/4))\<rparr>]"]
    decision_first_market [of "\<lparr>markets = Some [], other_keys = True\<rparr>"]
  by (simp add: decision_def truthy_str_def truthy_num_def)

subsection \<open>Proposals are well formed\<close>

text \<open>
  Claim C10: a proposal returned by the decision function has a non-empty market id and a
  nonzero price, so executing it never raises \<^verbatim>\<open>ZeroDivisionError\<close>, which in
  \<open>execute_trade\<close> only the sizing division of line 46 can raise; and a first record whose
  id is the empty string or whose price is 0 gives \<open>None\<close>.
\<close>

theorem decision_proposal_safe:
  "(decision data = Some d \<longrightarrow>
      event_id d \<noteq> [] \<and> price d \<noteq> Finite 0 \<and>
      fst (execute_trade env (Some d) s) \<noteq> Some ZeroDivisionError) \<and>
   (markets md = Some (m # ms) \<and> (market_id m = Some [] \<or> current_price m = Some (Finite 0)) \<longrightarrow>
      decision (Some md) = None)"
proof -
  have a: "event_id d \<noteq> [] \<and> price d \<noteq> Finite 0" if "decision data = Some d"
    using that
    by (auto simp add: decision_def truthy_str_def truthy_num_def
        split: option.splits list.splits if_splits)
  have b: "fst (execute_trade env (Some d) s) \<noteq> Some ZeroDivisionError" if p: "price d \<noteq> Finite 0"
  proof (cases rule: sizing_cases [of env d s])
    case (1 e)
    with sizing_exception [of env d s e] p have "e \<noteq> ZeroDivisionError" by auto
    with 1 show ?thesis by (simp add: execute_trade_raises)
  next
    case 2
    then show ?thesis by (simp add: execute_trade_skips)
  next
    case (3 q)
    with fst_trade_try [of env "event_id d" "action d" q "price d" "snd (position_sizing env d s)"]
    show ?thesis by (auto simp add: execute_trade_trades)
  qed
  have c: "decision (Some md) = None"
    if "markets md = Some (m # ms)" "market_id m = Some [] \<or> current_price m = Some (Finite 0)"
    using that by (auto simp add: decision_def truthy_str_def truthy_num_def)
  from a b c show ?thesis by blast
qed

text \<open>
  Claim C10 at a snapshot whose first market is priced 1/2, and at one priced 0.
\<close>

theorem decision_proposal_safe_witness:
  "decision (Some \<lparr>markets = Some [\<lparr>market_id = Some ''M'', current_price = Some (Finite (1/2))\<rparr>],
                    other_keys = False\<rparr>)
     = Some \<lparr>event_id = ''M'', action = ''buy'', quantity = 1, price = Finite (1/2)\<rparr> \<and>
   fst (execute_trade \<lparr>MAX_POSITION_SIZE_PERCENTAGE = Finite (1/8), notifier_raises = (\<lambda>_ _. None)\<rparr>
          (Some \<lparr>event_id = ''M'', action = ''buy'', quantity = 1, price = Finite (1/2)\<rparr>)
          (Trader (Finite 1000))) \<noteq> Some ZeroDivisionError \<and>
   decision (Some \<lparr>markets = Some [\<lparr>market_id = Some ''M'', current_price = Some (Finite 0)\<rparr>],
                    other_keys = False\<rparr>) = None"
  using decision_proposal_safe
    [of "Some \<lparr>markets = Some [\<lparr>market_id = Some ''M'', current_price = Some (Finite (1/2))\<rparr>],
                other_keys = False\<rparr>"
        "\<lparr>event_id = ''M'', action = ''buy'', quantity = 1, price = Finite (1/2)\<rparr>"
        "\<lparr>MAX_POSITION_SIZE_PERCENTAGE = Finite (1/8), notifier_raises = (\<lambda>_ _. None)\<rparr>"
        "Trader (Finite 1000)"
        "\<lparr>markets = Some [\<lparr>market_id = Some ''M'', current_price = Some (Finite 0)\<rparr>],
           other_keys = False\<rparr>"
        "\<lparr>market_id = Some ''M'', current_price = Some (Finite 0)\<rparr>" "[]"]
  by (simp add: decision_def truthy_str_def truthy_num_def)

section \<open>Trade execution\<close>

subsection \<open>Frame\<close>

text \<open>
  Claim C9: whatever the proposal and whether or not the call raises, \<open>execute_trade\<close>
  leaves the bankroll as it was, removes no key of the position book, and changes no entry
  of the book other than the one of the proposal's own market id.
\<close>

theorem execute_trade_frame:
  "bankroll (snd (execute_trade env td s)) = bankroll s \<and>
   dom (current_positions s) \<subseteq> dom (current_positions (snd (execute_trade env td s))) \<and>
   (\<forall>k. (\<forall>d. td = Some d \<longrightarrow> k \<noteq> event_id d) \<longrightarrow>
        current_positions (snd (execute_trade env td s)) k = current_positions s k)"
proof (cases td)
  case None
  then show ?thesis by (simp add: execute_trade_def logger_def)
next
  case (Some d)
  from positions_execute_trade [of env d s] Some bankroll_execute_trade [of env td s]
  show ?thesis by auto
qed

text \<open>
  Claim C9 at a sell in market \<open>M\<close> with a book that holds market \<open>N\<close>.
\<close>

theorem execute_trade_frame_witness:
  "bankroll (snd (execute_trade \<lparr>MAX_POSITION_SIZE_PERCENTAGE = Finite (1/8), notifier_raises = (\<lambda>_ _. None)\<rparr>
       (Some \<lparr>event_id = ''M'', action = ''sell'', quantity = 3, price = Finite (1/2)\<rparr>)
       ((Trader (Finite 1000))\<lparr>current_positions := [''N'' \<mapsto> 7]\<rparr>))) = Finite 1000 \<and>
   current_positions (snd (execute_trade \<lparr>MAX_POSITION_SIZE_PERCENTAGE = Finite (1/8), notifier_raises = (\<lambda>_ _. None)\<rparr>
       (Some \<lparr>event_id = ''M'', action = ''sell'', quantity = 3, price = Finite (1/2)\<rparr>)
       ((Trader (Finite 1000))\<lparr>current_positions := [''N'' \<mapsto> 7]\<rparr>))) ''N'' = Some 7"
  using execute_trade_frame
    [of "\<lparr>MAX_POSITION_SIZE_PERCENTAGE = Finite (1/8), notifier_raises = (\<lambda>_ _. None)\<rparr>"
        "Some \<lparr>event_id = ''M'', action = ''sell'', quantity = 3, price = Finite (1/2)\<rparr>"
        "(Trader (Finite 1000))\<lparr>current_positions := [''N'' \<mapsto> 7]\<rparr>"]
  by (simp add: Trader_def)

subsection \<open>Buy then sell\<close>



subsection \<open>Adjustment to zero\<close>




subsection \<open>Position sizing in float arithmetic\<close>

text \<open>
  Claim C1 at bankroll 1000, fraction 0.51 and a buy of 750 at price 0.68, with the exact
  values of these binary64 numbers. The value \<open>750 * p\<close> exceeds the limit \<open>B * f\<close>, and the
  claim's quantity \<open>floor (B * f / p)\<close> is 749. The code rounds the limit to 510 and the
  product to a float above 510, logs the adjustment, rounds the quotient \<open>510 / p\<close> up to
  750 and books 750.
\<close>

theorem adjusted_quantity_above_floor:
  "current_positions (snd (execute_trade
       \<lparr>MAX_POSITION_SIZE_PERCENTAGE = Finite (2296835809958953 / 4503599627370496), notifier_raises = (\<lambda>_ _. None)\<rparr>
       (Some \<lparr>event_id = ''M'', action = ''buy'', quantity = 750, price = Finite (6124895493223875 / 9007199254740992)\<rparr>)
       (Trader (Finite 1000)))) ''M'' = Some 750 \<and>
   log (snd (execute_trade
       \<lparr>MAX_POSITION_SIZE_PERCENTAGE = Finite (2296835809958953 / 4503599627370496), notifier_raises = (\<lambda>_ _. None)\<rparr>
       (Some \<lparr>event_id = ''M'', action = ''buy'', quantity = 750, price = Finite (6124895493223875 / 9007199254740992)\<rparr>)
       (Trader (Finite 1000)))) =
     [Warning_exceeds (Finite (8972014882652161 / 17592186044416)) (Finite 510),
      Info_buy ''M'' (Finite (6124895493223875 / 9007199254740992)) 750] \<and>
   (1000::rat) * (2296835809958953 / 4503599627370496) < of_int 750 * (6124895493223875 / 9007199254740992) \<and>
   \<lfloor>(1000::rat) * (2296835809958953 / 4503599627370496) / (6124895493223875 / 9007199254740992)\<rfloor> = 749"
proof -
  have a: "current_positions (snd (execute_trade
       \<lparr>MAX_POSITION_SIZE_PERCENTAGE = Finite (2296835809958953 / 4503599627370496), notifier_raises = (\<lambda>_ _. None)\<rparr>
       (Some \<lparr>event_id = ''M'', action = ''buy'', quantity = 750, price = Finite (6124895493223875 / 9007199254740992)\<rparr>)
       (Trader (Finite 1000)))) ''M'' = Some 750"
    by code_simp
  have b: "log (snd (execute_trade
       \<lparr>MAX_POSITION_SIZE_PERCENTAGE = Finite (2296835809958953 / 4503599627370496), notifier_raises = (\<lambda>_ _. None)\<rparr>
       (Some \<lparr>event_id = ''M'', action = ''buy'', quantity = 750, price = Finite (6124895493223875 / 9007199254740992)\<rparr>)
       (Trader (Finite 1000)))) =
     [Warning_exceeds (Finite (8972014882652161 / 17592186044416)) (Finite 510),
      Info_buy ''M'' (Finite (6124895493223875 / 9007199254740992)) 750]"
    by code_simp
  have c: "(1000::rat) * (2296835809958953 / 4503599627370496) < of_int 750 * (6124895493223875 / 9007199254740992)"
    by simp
  have d: "\<lfloor>(1000::rat) * (2296835809958953 / 4503599627370496) / (6124895493223875 / 9007199254740992)\<rfloor> = 749"
    by (simp add: floor_eq_iff)
  from a b c d show ?thesis by blast
qed

subsection \<open>The value limit in float arithmetic\<close>

text \<open>
  Claim C2 at the same input: the trade of 750 is booked and notified although its value
  exceeds the limit, both as the code computes the two (the test of line 44 holds of the
  booked quantity) and exactly.
\<close>

theorem booked_value_over_limit:
  "notifier_calls (snd (execute_trade
       \<lparr>MAX_POSITION_SIZE_PERCENTAGE = Finite (2296835809958953 / 4503599627370496), notifier_raises = (\<lambda>_ _. None)\<rparr>
       (Some \<lparr>event_id = ''M'', action = ''buy'', quantity = 750, price = Finite (6124895493223875 / 9007199254740992)\<rparr>)
       (Trader (Finite 1000)))) =
     [Trade_notification (Bought 750 ''M'' (Finite (6124895493223875 / 9007199254740992)))] \<and>
   fmul (Finite 750) (Finite (6124895493223875 / 9007199254740992)) = Finite (8972014882652161 / 17592186044416) \<and>
   max_trade_value \<lparr>MAX_POSITION_SIZE_PERCENTAGE = Finite (2296835809958953 / 4503599627370496), notifier_raises = (\<lambda>_ _. None)\<rparr> (Trader (Finite 1000)) = Finite 510 \<and>
   fgt (fmul (Finite 750) (Finite (6124895493223875 / 9007199254740992)))
       (max_trade_value \<lparr>MAX_POSITION_SIZE_PERCENTAGE = Finite (2296835809958953 / 4503599627370496), notifier_raises = (\<lambda>_ _. None)\<rparr> (Trader (Finite 1000))) \<and>
   (510::rat) < 8972014882652161 / 17592186044416"
proof -
  have a: "notifier_calls (snd (execute_trade
       \<lparr>MAX_POSITION_SIZE_PERCENTAGE = Finite (2296835809958953 / 4503599627370496), notifier_raises = (\<lambda>_ _. None)\<rparr>
       (Some \<lparr>event_id = ''M'', action = ''buy'', quantity = 750, price = Finite (6124895493223875 / 9007199254740992)\<rparr>)
       (Trader (Finite 1000)))) =
     [Trade_notification (Bought 750 ''M'' (Finite (6124895493223875 / 9007199254740992)))]"
    by code_simp
  have b: "fmul (Finite 750) (Finite (6124895493223875 / 9007199254740992)) = Finite (8972014882652161 / 17592186044416)"
    by code_simp
  have c: "max_trade_value \<lparr>MAX_POSITION_SIZE_PERCENTAGE = Finite (2296835809958953 / 4503599627370496), notifier_raises = (\<lambda>_ _. None)\<rparr> (Trader (Finite 1000)) = Finite 510"
    by code_simp
  have d: "(510::rat) < 8972014882652161 / 17592186044416"
    by simp
  from b c d have e: "fgt (fmul (Finite 750) (Finite (6124895493223875 / 9007199254740992)))
       (max_trade_value \<lparr>MAX_POSITION_SIZE_PERCENTAGE = Finite (2296835809958953 / 4503599627370496), notifier_raises = (\<lambda>_ _. None)\<rparr> (Trader (Finite 1000)))"
    by simp
  from a b c d e show ?thesis by blast
qed

subsection \<open>Failures inside and outside the handler\<close>




subsection \<open>A side that is neither buy nor sell\<close>

text \<open>
  Claim C8 as written: a proposal with another side is rejected as an invalid side, and the
  result says so. It fails in its last part. The method has no branch for another side:
  for the side \<^verbatim>\<open>hold\<close> it returns \<^verbatim>\<open>None\<close>, as it does after an executed buy, and leaves
  the whole state, log and notifier calls included, as it was.
\<close>

theorem invalid_side_silent_counterexample:
  "execute_trade \<lparr>MAX_POSITION_SIZE_PERCENTAGE = Finite (1/8), notifier_raises = (\<lambda>_ _. None)\<rparr>
     (Some \<lparr>event_id = ''M'', action = ''hold'', quantity = 1, price = Finite (1/2)\<rparr>) (Trader (Finite 1000))
     = (None, Trader (Finite 1000)) \<and>
   fst (execute_trade \<lparr>MAX_POSITION_SIZE_PERCENTAGE = Finite (1/8), notifier_raises = (\<lambda>_ _. None)\<rparr>
     (Some \<lparr>event_id = ''M'', action = ''buy'', quantity = 1, price = Finite (1/2)\<rparr>) (Trader (Finite 1000)))
     = None"
proof -
  let ?env = "\<lparr>MAX_POSITION_SIZE_PERCENTAGE = Finite (1/8), notifier_raises = (\<lambda>_ _. None)\<rparr>"
  let ?s = "Trader (Finite 1000)"
  have v: "trade_value \<lparr>event_id = ''M'', action = a, quantity = 1, price = Finite (1/2)\<rparr>
      = Inr (Finite (1/2))" for a
    by code_simp
  have m: "\<not> fgt (Finite (1/2)) (max_trade_value ?env ?s)"
    by code_simp
  have sz: "position_sizing ?env \<lparr>event_id = ''M'', action = a, quantity = 1, price = Finite (1/2)\<rparr> ?s
      = (Inr (Some 1), ?s)" for a
    using sizing_within [OF v m, of a] by simp
  show ?thesis
    by (simp add: execute_trade_def sz trade_try_def trade_body_def send_trade_notification_def
        notify_def)
qed

text \<open>
  Claim C8, amended: for a proposal whose side is neither buy nor sell the position book
  is not changed and the notifier is not called. The call returns \<^verbatim>\<open>None\<close> or raises one of
  the exceptions of the sizing, and when the proposal is within the value limit it has no
  effect at all.
\<close>

theorem invalid_side_ignored:
  "action d \<noteq> ''buy'' \<Longrightarrow> action d \<noteq> ''sell'' \<Longrightarrow>
   current_positions (snd (execute_trade env (Some d) s)) = current_positions s \<and>
   notifier_calls (snd (execute_trade env (Some d) s)) = notifier_calls s \<and>
   (fst (execute_trade env (Some d) s) = None \<or>
    fst (execute_trade env (Some d) s) = Some ZeroDivisionError \<or>
    fst (execute_trade env (Some d) s) = Some OverflowError \<or>
    fst (execute_trade env (Some d) s) = Some ValueError) \<and>
   (trade_value d = Inr v \<and> \<not> fgt v (max_trade_value env s) \<longrightarrow>
      execute_trade env (Some d) s = (None, s))"
proof -
  assume a: "action d \<noteq> ''buy''" "action d \<noteq> ''sell''"
  have main: "current_positions (snd (execute_trade env (Some d) s)) = current_positions s \<and>
   notifier_calls (snd (execute_trade env (Some d) s)) = notifier_calls s \<and>
   (fst (execute_trade env (Some d) s) = None \<or>
    fst (execute_trade env (Some d) s) = Some ZeroDivisionError \<or>
    fst (execute_trade env (Some d) s) = Some OverflowError \<or>
    fst (execute_trade env (Some d) s) = Some ValueError)"
  proof (cases rule: sizing_cases [of env d s])
    case (1 e)
    with sizing_exception [of env d s e] show ?thesis
      by (auto simp add: execute_trade_raises sizing_frame)
  next
    case 2
    then show ?thesis by (simp add: execute_trade_skips sizing_frame)
  next
    case (3 q)
    with a show ?thesis
      by (simp add: execute_trade_trades trade_try_other_side sizing_frame)
  qed
  have within: "execute_trade env (Some d) s = (None, s)"
    if "trade_value d = Inr v" "\<not> fgt v (max_trade_value env s)"
  proof -
    from that have "position_sizing env d s = (Inr (Some (quantity d)), s)"
      by (rule sizing_within)
    with a show ?thesis
      by (simp add: execute_trade_def trade_try_other_side)
  qed
  from main within show ?thesis by blast
qed

text \<open>
  The amended claim at the side \<^verbatim>\<open>hold\<close>, quantity 250 and price 1/2.
\<close>

theorem invalid_side_ignored_witness:
  "current_positions (snd (execute_trade \<lparr>MAX_POSITION_SIZE_PERCENTAGE = Finite (1/8), notifier_raises = (\<lambda>_ _. None)\<rparr>
     (Some \<lparr>event_id = ''M'', action = ''hold'', quantity = 250, price = Finite (1/2)\<rparr>) (Trader (Finite 1000))))
     = current_positions (Trader (Finite 1000)) \<and>
   notifier_calls (snd (execute_trade \<lparr>MAX_POSITION_SIZE_PERCENTAGE = Finite (1/8), notifier_raises = (\<lambda>_ _. None)\<rparr>
     (Some \<lparr>event_id = ''M'', action = ''hold'', quantity = 250, price = Finite (1/2)\<rparr>) (Trader (Finite 1000))))
     = notifier_calls (Trader (Finite 1000)) \<and>
   execute_trade \<lparr>MAX_POSITION_SIZE_PERCENTAGE = Finite (1/8), notifier_raises = (\<lambda>_ _. None)\<rparr>
     (Some \<lparr>event_id = ''M'', action = ''hold'', quantity = 250, price = Finite (1/2)\<rparr>) (Trader (Finite 1000))
     = (None, Trader (Finite 1000))"
proof -
  let ?env = "\<lparr>MAX_POSITION_SIZE_PERCENTAGE = Finite (1/8), notifier_raises = (\<lambda>_ _. None)\<rparr>"
  let ?d = "\<lparr>event_id = ''M'', action = ''hold'', quantity = 250, price = Finite (1/2)\<rparr>"
  have h1: "action ?d \<noteq> ''buy''" by simp
  have h2: "action ?d \<noteq> ''sell''" by simp
  have h3: "trade_value ?d = Inr (Finite 125)" by code_simp
  have h4: "\<not> fgt (Finite 125) (max_trade_value ?env (Trader (Finite 1000)))" by code_simp
  from invalid_side_ignored [OF h1 h2, of ?env "Trader (Finite 1000)" "Finite 125"] h3 h4
  show ?thesis by blast
qed

section \<open>The main loop\<close>

text \<open>
  The trader writes none of the log entries of \<^verbatim>\<open>main\<close>, so the entries of \<^verbatim>\<open>main\<close> in the
  log count the cycles.
\<close>

lemma main_entries_trade_try:
  "filter main_entry (log (snd (trade_try env eid act q p s))) = filter main_entry (log s)"
  by (simp add: trade_try_def trade_body_def send_trade_notification_def
      send_error_notification_def notify_def set_position_def logger_def
      split: option.splits)

lemma main_entries_execute_trade:
  "filter main_entry (log (snd (execute_trade env td s))) = filter main_entry (log s)"
proof (cases td)
  case None
  then show ?thesis by (simp add: execute_trade_def logger_def)
next
  case (Some d)
  show ?thesis
  proof (cases rule: sizing_cases [of env d s])
    case (1 e)
    with Some show ?thesis by (simp add: execute_trade_raises sizing_frame)
  next
    case 2
    with Some show ?thesis by (simp add: execute_trade_skips sizing_frame)
  next
    case (3 q)
    with Some show ?thesis by (simp add: execute_trade_trades main_entries_trade_try sizing_frame)
  qed
qed

lemma main_entries_run_trading_strategy:
  "filter main_entry (log (snd (run_trading_strategy env r s))) = filter main_entry (log s)"
  by (cases r)
    (simp_all add: run_trading_strategy_def make_trade_decision_def main_entries_execute_trade
      logger_def split: option.splits)

lemma main_entries_main_loop:
  "main_loop env rs s = (None, s') \<Longrightarrow>
   filter main_entry (log s') = filter main_entry (log s) @ replicate (length rs) Info_running_strategy"
proof (induction rs arbitrary: s)
  case Nil
  then show ?case by simp
next
  case (Cons r rs)
  let ?c = "run_trading_strategy env r (logger Info_running_strategy s)"
  from Cons.prems obtain s1 where c: "?c = (None, s1)" and l: "main_loop env rs s1 = (None, s')"
    by (auto split: prod.splits option.splits)
  have "filter main_entry (log (snd ?c)) = filter main_entry (log (logger Info_running_strategy s))"
    by (rule main_entries_run_trading_strategy)
  with c have "filter main_entry (log s1) = filter main_entry (log s) @ [Info_running_strategy]"
    by (simp add: logger_def)
  with Cons.IH [OF l] show ?case
    by (simp add: replicate_append_same)
qed

lemma main_loop_append:
  "main_loop env (pre @ rs) s =
     (case main_loop env pre s of (Some e, s') \<Rightarrow> (Some e, s') | (None, s') \<Rightarrow> main_loop env rs s')"
  by (induction pre arbitrary: s) (auto split: prod.splits option.splits)

lemma main_loop_stops:
  assumes "main_loop env pre s = (None, s1)"
    and "run_trading_strategy env r (logger Info_running_strategy s1) = (Some e, s2)"
  shows "main_loop env (pre @ r # rest) s = (Some e, s2)"
  using assms by (simp add: main_loop_append)

subsection \<open>The first exception ends the loop\<close>

text \<open>
  Claim C6: when the cycles run for the fetch outcomes \<open>pre\<close> raise nothing and the next
  cycle raises \<open>e\<close> (a failed fetch raises, whatever the state), \<^verbatim>\<open>main\<close> leaves its loop: the
  result is not \<open>Still_running\<close> and it is the same whatever outcomes \<open>rest\<close> would have
  followed, so no further cycle runs. The handler logs \<open>e\<close> and calls the notifier's error
  method with it, once each, after the state the failing cycle left; the book stays as
  that cycle left it; and the log holds the start entry, one entry for each of the
  \<open>length pre + 1\<close> cycles and exactly one handler entry.
\<close>

theorem main_stops_at_first_exception:
  "main_loop env pre (logger Info_starting (Trader b)) = (None, s1) \<Longrightarrow>
   run_trading_strategy env r (logger Info_running_strategy s1) = (Some e, s2) \<Longrightarrow>
   main env b (pre @ r # rest) = main env b (pre @ [r]) \<and>
   fst (main env b (pre @ r # rest)) \<noteq> Still_running \<and>
   log (snd (main env b (pre @ r # rest))) = log s2 @ [Error_occurred e] \<and>
   notifier_calls (snd (main env b (pre @ r # rest))) =
     notifier_calls s2 @ [Error_notification (Error_text e)] \<and>
   current_positions (snd (main env b (pre @ r # rest))) = current_positions s2 \<and>
   filter main_entry (log (snd (main env b (pre @ r # rest)))) =
     Info_starting # replicate (Suc (length pre)) Info_running_strategy @ [Error_occurred e] \<and>
   run_trading_strategy env (Fetch_raises t) s = (Some (ApiError t), s)"
proof -
  assume pre: "main_loop env pre (logger Info_starting (Trader b)) = (None, s1)"
    and r: "run_trading_strategy env r (logger Info_running_strategy s1) = (Some e, s2)"
  let ?s0 = "logger Info_starting (Trader b)"
  from pre r have stop: "main_loop env (pre @ r # xs) ?s0 = (Some e, s2)" for xs
    by (rule main_loop_stops)
  have m: "main env b (pre @ r # xs) =
      (case send_error_notification env (Error_text e) (logger (Error_occurred e) s2) of
         (None, s') \<Rightarrow> (Returned, s') | (Some e', s') \<Rightarrow> (Raised e', s'))" for xs
    by (simp add: main_def stop)
  have same: "main env b (pre @ r # rest) = main env b (pre @ [r])"
    by (simp only: m)
  have "filter main_entry (log s1) =
      filter main_entry (log ?s0) @ replicate (length pre) Info_running_strategy"
    using pre by (rule main_entries_main_loop)
  then have e1: "filter main_entry (log s1) = Info_starting # replicate (length pre) Info_running_strategy"
    by (simp add: logger_def Trader_def)
  have "filter main_entry (log (snd (run_trading_strategy env r (logger Info_running_strategy s1))))
      = filter main_entry (log (logger Info_running_strategy s1))"
    by (rule main_entries_run_trading_strategy)
  with r e1 have e2: "filter main_entry (log s2) =
      Info_starting # replicate (Suc (length pre)) Info_running_strategy"
    by (simp add: logger_def replicate_append_same)
  have out: "fst (main env b (pre @ r # rest)) \<noteq> Still_running"
    by (simp add: m send_error_notification_def notify_def split: option.splits)
  have st: "snd (main env b (pre @ r # rest)) =
      (logger (Error_occurred e) s2)\<lparr>notifier_calls := notifier_calls s2 @ [Error_notification (Error_text e)]\<rparr>"
    by (simp add: m send_error_notification_def notify_def logger_def split: option.splits)
  have lg: "log (snd (main env b (pre @ r # rest))) = log s2 @ [Error_occurred e]"
    by (simp add: st logger_def)
  have nc: "notifier_calls (snd (main env b (pre @ r # rest))) =
      notifier_calls s2 @ [Error_notification (Error_text e)]"
    by (simp add: st)
  have cp: "current_positions (snd (main env b (pre @ r # rest))) = current_positions s2"
    by (simp add: st logger_def)
  have me: "filter main_entry (log (snd (main env b (pre @ r # rest)))) =
      Info_starting # replicate (Suc (length pre)) Info_running_strategy @ [Error_occurred e]"
    by (simp only: lg filter_append e2) simp
  have fetch: "run_trading_strategy env (Fetch_raises t) s = (Some (ApiError t), s)"
    by (simp add: run_trading_strategy_def)
  from same out lg nc cp me fetch show ?thesis
    by (intro conjI)
qed

text \<open>
  Claim C6 at three fetch outcomes of which the second raises: two cycles are started, and
  the third outcome is never asked for.
\<close>

theorem main_stops_at_first_exception_witness:
  "fst (main \<lparr>MAX_POSITION_SIZE_PERCENTAGE = Finite (1/8), notifier_raises = (\<lambda>_ _. None)\<rparr> (Finite 1000)
     [Fetch_returns None, Fetch_raises ''timeout'', Fetch_returns None]) \<noteq> Still_running \<and>
   main \<lparr>MAX_POSITION_SIZE_PERCENTAGE = Finite (1/8), notifier_raises = (\<lambda>_ _. None)\<rparr> (Finite 1000)
     [Fetch_returns None, Fetch_raises ''timeout'', Fetch_returns None] =
   main \<lparr>MAX_POSITION_SIZE_PERCENTAGE = Finite (1/8), notifier_raises = (\<lambda>_ _. None)\<rparr> (Finite 1000)
     [Fetch_returns None, Fetch_raises ''timeout''] \<and>
   filter main_entry (log (snd (main \<lparr>MAX_POSITION_SIZE_PERCENTAGE = Finite (1/8), notifier_raises = (\<lambda>_ _. None)\<rparr> (Finite 1000)
     [Fetch_returns None, Fetch_raises ''timeout'', Fetch_returns None]))) =
   [Info_starting, Info_running_strategy, Info_running_strategy, Error_occurred (ApiError ''timeout'')]"
proof -
  let ?env = "\<lparr>MAX_POSITION_SIZE_PERCENTAGE = Finite (1/8), notifier_raises = (\<lambda>_ _. None)\<rparr>"
  let ?s1 = "logger Info_no_market_data (logger Info_running_strategy (logger Info_starting (Trader (Finite 1000))))"
  have h1: "main_loop ?env [Fetch_returns None] (logger Info_starting (Trader (Finite 1000))) = (None, ?s1)"
    by (simp add: run_trading_strategy_def truthy_data_def)
  have h2: "run_trading_strategy ?env (Fetch_raises ''timeout'') (logger Info_running_strategy ?s1)
      = (Some (ApiError ''timeout''), logger Info_running_strategy ?s1)"
    by (simp add: run_trading_strategy_def)
  from main_stops_at_first_exception
    [OF h1 h2, where rest = "[Fetch_returns None]" and t = "[]"
       and s = "Trader (Finite 0)"]
  show ?thesis
    by (simp add: main_def run_trading_strategy_def truthy_data_def
        send_error_notification_def notify_def logger_def Trader_def)
qed

end
